theory Spec2Isabelle
  imports Complex_Main
begin

section \<open>Shallow embedding of strategy.py\<close>

text \<open>
  The embedding follows \<^verbatim>\<open>src/strategy.py\<close> method by method. Python floats are
  idealised as \<^typ>\<open>real\<close>: comparisons and arithmetic are exact, and an instrument is
  taken after its first \<^verbatim>\<open>Instrument.update\<close>, so that its price is a number.
  Every \<^verbatim>\<open>raise\<close> of the source, and every division that Python refuses, is a
  branch \<open>Inl\<close> of the model.
\<close>

datatype error = ValueError string | ZeroDivisionError | IndexError

type_synonym timestamp = nat

subsection \<open>Instrument\<close>

record Instrument =
  price :: real
  ts :: timestamp
  inst_prices :: "(timestamp \<times> real) list"

definition Instrument_update :: "timestamp \<Rightarrow> real \<Rightarrow> Instrument \<Rightarrow> Instrument" where
  "Instrument_update t p i = i\<lparr>price := p, ts := t, inst_prices := inst_prices i @ [(t, p)]\<rparr>"

subsection \<open>ThresholdControl\<close>

record ThresholdControl =
  tc_prices :: "real list"
  tc_funds :: "real list"
  tc_units :: "real list"
  tc_total0 :: real
  tc_times :: "timestamp list"
  winningPer :: real
  losingPer :: real
  sellingPerWin :: real
  sellingPerLose :: real

text \<open>\<^verbatim>\<open>ThresholdControl.__init__\<close> (lines 87-104): the three checks in the source's order.\<close>

definition ThresholdControl_init ::
  "Instrument \<Rightarrow> real \<Rightarrow> real \<Rightarrow> real \<Rightarrow> real \<Rightarrow> real \<Rightarrow> real \<Rightarrow> error + ThresholdControl" where
  "ThresholdControl_init i fund0 unit0 wP lP sPW sPL =
     (if wP > 1 then Inl (ValueError ''Winning Per incorrect'')
      else if lP > 1 then Inl (ValueError ''Losing Per incorrect'')
      else if sPW > 1 \<or> sPL > 1 then Inl (ValueError ''Selling Per incorrect'')
      else Inr \<lparr>tc_prices = [price i], tc_funds = [fund0], tc_units = [unit0],
                tc_total0 = fund0 + unit0 * price i, tc_times = [ts i],
                winningPer = wP, losingPer = lP, sellingPerWin = sPW, sellingPerLose = sPL\<rparr>)"

text \<open>
  The two \<^verbatim>\<open>logger.info\<close> lines of \<^verbatim>\<open>ThresholdControl.update\<close> tell the branches
  apart; the model returns which of them was written.
\<close>

datatype tc_log = WinningControl | LosingControl

text \<open>
  \<^verbatim>\<open>ThresholdControl.update\<close> (lines 106-145). \<^verbatim>\<open>and\<close> short-circuits, so the
  quotient \<^verbatim>\<open>gain/self.total0\<close> is evaluated, and raises for a zero baseline, only
  behind its sign test.
\<close>

definition ThresholdControl_update ::
  "Instrument \<Rightarrow> real \<Rightarrow> real \<Rightarrow> ThresholdControl
     \<Rightarrow> error + (real \<times> tc_log option \<times> ThresholdControl)" where
  "ThresholdControl_update i fundIn deltaUnit s =
     (let s1 = s\<lparr>tc_prices := tc_prices s @ [price i], tc_times := tc_times s @ [ts i]\<rparr>;
          fund = fundIn
      in if tc_units s1 = [] then Inl IndexError
         else
           let unit = last (tc_units s1) + deltaUnit
           in if unit = 0 then Inr (0, None, s1)
              else
                let total = fund + unit * last (tc_prices s1);
                    gain = total - tc_total0 s1
                in if gain \<ge> 0 \<and> tc_total0 s1 = 0 then Inl ZeroDivisionError
                   else if gain \<ge> 0 \<and> gain / tc_total0 s1 \<ge> winningPer s1 then
                     let sellingUnit = abs unit * sellingPerWin s1;
                         sellingUnit = (if sellingUnit \<ge> abs unit then abs unit else sellingUnit);
                         sellingUnit = (if unit > 0 then - sellingUnit else sellingUnit)
                     in Inr (sellingUnit, Some WinningControl,
                             s1\<lparr>tc_units := tc_units s1 @ [unit + sellingUnit],
                                tc_funds := tc_funds s1 @ [fund + sellingUnit * price i]\<rparr>)
                   else if gain \<le> 0 \<and> tc_total0 s1 = 0 then Inl ZeroDivisionError
                   else if gain \<le> 0 \<and> abs (gain / tc_total0 s1) \<ge> losingPer s1 then
                     let sellingUnit = abs unit * sellingPerLose s1;
                         sellingUnit = (if sellingUnit \<ge> abs unit then abs unit else sellingUnit);
                         sellingUnit = (if unit > 0 then - sellingUnit else sellingUnit)
                     in Inr (sellingUnit, Some LosingControl,
                             s1\<lparr>tc_units := tc_units s1 @ [unit + sellingUnit],
                                tc_funds := tc_funds s1 @ [fund + sellingUnit * price i]\<rparr>)
                   else Inr (0, None,
                             s1\<lparr>tc_funds := tc_funds s1 @ [fund],
                                tc_units := tc_units s1 @ [unit]\<rparr>))"

subsection \<open>Chasing\<close>

record Chasing =
  c_mode :: string
  trend :: real
  c_prices :: "real list"
  c_times :: "timestamp list"
  c_total :: real
  c_direction :: int
  c_high :: real
  c_low :: real
  c_init :: real
  inc :: real
  safetyamount :: real
  stack :: int
  c_buysell :: int
  upper_limit :: real
  lower_limit :: real
  gap :: real
  nextStepUp :: real
  nextStepDown :: real

text \<open>\<^verbatim>\<open>Chasing.__init__\<close> (lines 156-184).\<close>

definition Chasing_init ::
  "Instrument \<Rightarrow> real \<Rightarrow> real \<Rightarrow> string \<Rightarrow> real \<Rightarrow> real \<Rightarrow> real \<Rightarrow> real \<Rightarrow> real \<Rightarrow> real
     \<Rightarrow> error + Chasing" where
  "Chasing_init i unit0 trend0 mode_chase gap0 upper0 lower0 init0 inc0 safety0 =
     (if mode_chase \<notin> set [''chase'', ''safety''] then Inl (ValueError ''Unsupported mode of operation'')
      else Inr \<lparr>c_mode = mode_chase,
                trend = (if trend0 \<noteq> - 1 then 1 else trend0),
                c_prices = [price i], c_times = [ts i],
                c_total = price i * unit0,
                c_direction = 0, c_high = - 10000, c_low = 10000,
                c_init = init0, inc = inc0, safetyamount = safety0,
                stack = 0, c_buysell = 0,
                upper_limit = upper0, lower_limit = lower0, gap = gap0,
                nextStepUp = price i + gap0, nextStepDown = price i - gap0\<rparr>)"

text \<open>The four mode/trend blocks of \<^verbatim>\<open>Chasing.update\<close>, lines 206-261, in the source's order.\<close>

definition chase_up :: "real \<Rightarrow> Chasing \<Rightarrow> real \<times> Chasing" where
  "chase_up p s =
     (let s1 = (if p \<ge> nextStepUp s then s\<lparr>c_buysell := 1\<rparr> else s)
      in if p \<ge> nextStepUp s1 + upper_limit s1 then
           (if c_buysell s1 = 1 then
              let amount = c_init s1 - real_of_int (stack s1) * inc s1;
                  (amount, s2) = (if amount \<le> 0 then (0, s1) else (amount, s1\<lparr>stack := stack s1 + 1\<rparr>))
              in (amount, s2\<lparr>nextStepUp := p + gap s2, c_buysell := 0\<rparr>)
            else (0, s1))
         else if p \<le> nextStepUp s1 - lower_limit s1 then (0, s1\<lparr>c_buysell := 0\<rparr>)
         else (0, s1))"

definition chase_down :: "real \<Rightarrow> Chasing \<Rightarrow> real \<times> Chasing" where
  "chase_down p s =
     (let s1 = (if p \<le> nextStepDown s then s\<lparr>c_buysell := - 1\<rparr> else s)
      in if p \<le> nextStepDown s1 - lower_limit s1 then
           (if c_buysell s1 = - 1 then
              let amount = c_init s1 - real_of_int (stack s1) * inc s1;
                  amount = - amount;
                  (amount, s2) = (if amount \<ge> 0 then (0, s1) else (amount, s1\<lparr>stack := stack s1 + 1\<rparr>))
              in (amount, s2\<lparr>nextStepDown := p - gap s2, c_buysell := 0\<rparr>)
            else (0, s1))
         else if p \<ge> nextStepDown s1 + upper_limit s1 then (0, s1\<lparr>c_buysell := 0\<rparr>)
         else (0, s1))"

definition safety_up :: "real \<Rightarrow> int \<Rightarrow> Chasing \<Rightarrow> real \<times> Chasing" where
  "safety_up p direction s =
     (if c_buysell s = 0 then
        (if p \<ge> nextStepUp s then
           (0, s\<lparr>c_buysell := - 1, nextStepUp := p + gap s, nextStepDown := p - gap s\<rparr>)
         else if p \<le> nextStepDown s then
           (0, s\<lparr>c_buysell := - 1, nextStepDown := p - gap s\<rparr>)
         else (0, s))
      else if c_buysell s = - 1 \<and> direction = - 1 \<and> c_high s - p \<ge> lower_limit s then
        (- safetyamount s, s\<lparr>c_buysell := 0\<rparr>)
      else (0, s))"

definition safety_down :: "real \<Rightarrow> int \<Rightarrow> Chasing \<Rightarrow> real \<times> Chasing" where
  "safety_down p direction s =
     (if c_buysell s = 0 then
        (if p \<le> nextStepDown s then
           (0, s\<lparr>c_buysell := 1, nextStepUp := p + gap s, nextStepDown := p - gap s\<rparr>)
         else if p \<ge> nextStepUp s then
           (0, s\<lparr>c_buysell := 1, nextStepUp := p + gap s\<rparr>)
         else (0, s))
      else if c_buysell s = 1 \<and> direction = 1 \<and> p - c_low s \<ge> lower_limit s then
        (safetyamount s, s\<lparr>c_buysell := 0\<rparr>)
      else (0, s))"

text \<open>
  \<^verbatim>\<open>Chasing.update\<close> (lines 185-262). The price and the time are appended to the
  histories before the direction is looked at.
\<close>

definition Chasing_update :: "Instrument \<Rightarrow> Chasing \<Rightarrow> error + (real \<times> Chasing)" where
  "Chasing_update i s =
     (if c_prices s = [] then Inl IndexError
      else
        let p = price i;
            price0 = last (c_prices s);
            s1 = s\<lparr>c_prices := c_prices s @ [p], c_times := c_times s @ [ts i]\<rparr>
        in if \<not> (p > price0 \<or> p < price0) then Inr (0, s1)
           else
             let direction = (if p > price0 then 1 else - 1)
             in if c_direction s1 = 0 then Inr (0, s1\<lparr>c_direction := direction\<rparr>)
                else
                  let s2 = (if c_direction s1 > 0 \<and> direction < 0 then s1\<lparr>c_high := price0\<rparr>
                            else if c_direction s1 < 0 \<and> direction > 0 then s1\<lparr>c_low := price0\<rparr>
                            else s1);
                      s3 = s2\<lparr>c_direction := direction\<rparr>
                  in Inr (if c_mode s3 = ''chase''
                          then (if trend s3 = 1 then chase_up p s3 else chase_down p s3)
                          else (if trend s3 = 1 then safety_up p direction s3
                                else safety_down p direction s3)))"

subsection \<open>TurningPoint\<close>

record TurningPoint =
  tp_buysell :: real
  tp_pt :: real
  tp_prices :: "real list"
  tp_times :: "timestamp list"
  tp_highs :: "real list"
  n_delta :: real
  tp_h :: real
  tp_lows :: "real list"
  tp_gain :: real
  tp_gains :: "real list"
  tp_mode :: string
  selling :: real
  buying :: real
  cnt :: int
  tp_direction :: int
  tp_high :: real
  tp_low :: real

text \<open>
  \<^verbatim>\<open>TurningPoint.__init__\<close> (lines 274-296); the parameter \<^verbatim>\<open>n\<close> is the starting
  size of both \<^verbatim>\<open>buying\<close> and \<^verbatim>\<open>selling\<close>.
\<close>

definition TurningPoint_init ::
  "Instrument \<Rightarrow> string \<Rightarrow> real \<Rightarrow> real \<Rightarrow> real \<Rightarrow> real \<Rightarrow> error + TurningPoint" where
  "TurningPoint_init i mode_turning buysell0 n0 n_delta0 h0 =
     (if mode_turning \<notin> set [''increase'', ''decrease'', ''size''] then Inl (ValueError ''Mode error'')
      else Inr \<lparr>tp_buysell = buysell0, tp_pt = price i, tp_prices = [price i], tp_times = [ts i],
                tp_highs = [], n_delta = n_delta0, tp_h = h0, tp_lows = [],
                tp_gain = 0, tp_gains = [], tp_mode = mode_turning,
                selling = n0, buying = n0, cnt = 0, tp_direction = 0,
                tp_high = - 10000, tp_low = 10000\<rparr>)"

text \<open>Python's \<^verbatim>\<open>int(x)\<close> on a float truncates towards zero.\<close>

definition py_int :: "real \<Rightarrow> int" where
  "py_int x = (if x \<ge> 0 then \<lfloor>x\<rfloor> else \<lceil>x\<rceil>)"

text \<open>Lines 334-339: the step that is added after a trade, from the ledger and the price.\<close>

definition adaptive_step :: "real \<Rightarrow> real \<Rightarrow> real \<Rightarrow> real" where
  "adaptive_step nd g p =
     (let nd1 = (if nd > g / p then real_of_int (py_int (g / p)) else nd)
      in if nd1 < 0 then 0 else nd1)"

text \<open>\<^verbatim>\<open>TurningPoint.update\<close> (lines 298-347).\<close>

definition TurningPoint_update :: "Instrument \<Rightarrow> TurningPoint \<Rightarrow> error + (real \<times> TurningPoint)" where
  "TurningPoint_update i s =
     (if tp_prices s = [] then Inl IndexError
      else
        let price0 = last (tp_prices s);
            p = price i;
            s1 = s\<lparr>tp_prices := tp_prices s @ [p], tp_times := tp_times s @ [ts i]\<rparr>
        in if \<not> (p > price0 \<or> p < price0) then Inr (0, s1)
           else
             let direction = (if p > price0 then 1 else - 1)
             in if tp_direction s1 = 0 then Inr (0, s1\<lparr>tp_direction := direction\<rparr>)
                else
                  let s2 = (if tp_direction s1 > 0 \<and> direction < 0
                              then s1\<lparr>tp_high := price0, tp_highs := tp_highs s1 @ [price0]\<rparr>
                            else if tp_direction s1 < 0 \<and> direction > 0
                              then s1\<lparr>tp_low := price0, tp_lows := tp_lows s1 @ [price0]\<rparr>
                            else s1);
                      s3 = s2\<lparr>tp_direction := direction\<rparr>;
                      (amount, s4) =
                        (if tp_buysell s3 = 1 \<and> direction = 1 \<and> p - tp_low s3 \<ge> tp_h s3 then
                           (buying s3, s3\<lparr>tp_gain := tp_gain s3 - buying s3 * p, tp_buysell := - 1\<rparr>)
                         else if tp_buysell s3 = - 1 \<and> direction = - 1 \<and> tp_high s3 - p \<ge> tp_h s3 then
                           (- selling s3, s3\<lparr>tp_gain := tp_gain s3 - (- selling s3) * p, tp_buysell := 1\<rparr>)
                         else (0, s3));
                      s5 = s4\<lparr>tp_gains := tp_gains s4 @ [tp_gain s4]\<rparr>
                  in if amount \<noteq> 0 then
                       (if p = 0 then Inl ZeroDivisionError
                        else
                          let s6 = s5\<lparr>cnt := cnt s5 + 1\<rparr>;
                              nd = adaptive_step (n_delta s6) (tp_gain s6) p
                          in Inr (amount,
                                  if tp_mode s6 = ''increase'' then s6\<lparr>buying := buying s6 + nd\<rparr>
                                  else if tp_mode s6 = ''decrease'' then s6\<lparr>selling := selling s6 + nd\<rparr>
                                  else s6\<lparr>buying := buying s6 + nd, selling := selling s6 + nd\<rparr>))
                     else Inr (amount, s5))"

subsection \<open>PrototypeStrategyI\<close>

text \<open>
  The resolved configuration \<^verbatim>\<open>self.kwargs\<close>: every value is the float that
  \<^verbatim>\<open>float(v[0])\<close> gave, or the text that it refused.
\<close>

datatype pyval = Num real | Str string

type_synonym order = "timestamp \<times> real \<times> real \<times> string"

record PrototypeStrategyI =
  mode :: string
  inst :: Instrument
  fund :: real
  unit :: real
  total0 :: real
  unitInit :: real
  o_ts :: "timestamp list"
  funds :: "real list"
  units :: "real list"
  gains :: "real list"
  orders :: "order list"
  o_prices :: "real list"
  kwargs :: "string \<rightharpoonup> pyval"
  ThresholdControlRoutine :: ThresholdControl
  ChasingRoutine :: Chasing
  TurningPointRoutine :: TurningPoint

text \<open>
  A keyword argument of \<^verbatim>\<open>ThresholdControl(..., **self.kwargs)\<close> passed through
  \<^verbatim>\<open>float(...)\<close>: the default when the key is absent, and \<^verbatim>\<open>ValueError\<close> for a
  text, which is in the mapping only because \<^verbatim>\<open>float\<close> has refused it before.
\<close>

definition kw_float :: "(string \<rightharpoonup> pyval) \<Rightarrow> string \<Rightarrow> real \<Rightarrow> error + real" where
  "kw_float kw k d =
     (case kw k of None \<Rightarrow> Inr d
      | Some (Num r) \<Rightarrow> Inr r
      | Some (Str t) \<Rightarrow> Inl (ValueError ''could not convert string to float''))"

text \<open>
  \<^verbatim>\<open>ThresholdControl(inst, fund, unit, **self.kwargs)\<close>: each conversion happens just
  before its own range check, as in lines 95-104.
\<close>

definition ThresholdControl_kwargs ::
  "Instrument \<Rightarrow> real \<Rightarrow> real \<Rightarrow> (string \<rightharpoonup> pyval) \<Rightarrow> error + ThresholdControl" where
  "ThresholdControl_kwargs i fund0 unit0 kw =
     (case kw_float kw ''winningPer'' (4 / 10) of Inl e \<Rightarrow> Inl e
      | Inr wP \<Rightarrow>
          if wP > 1 then Inl (ValueError ''Winning Per incorrect'')
          else (case kw_float kw ''losingPer'' (2 / 10) of Inl e \<Rightarrow> Inl e
          | Inr lP \<Rightarrow>
              if lP > 1 then Inl (ValueError ''Losing Per incorrect'')
              else (case kw_float kw ''sellingPerWin'' (5 / 10) of Inl e \<Rightarrow> Inl e
              | Inr sPW \<Rightarrow>
                  (case kw_float kw ''sellingPerLose'' 1 of Inl e \<Rightarrow> Inl e
                   | Inr sPL \<Rightarrow> ThresholdControl_init i fund0 unit0 wP lP sPW sPL))))"

text \<open>\<^verbatim>\<open>PrototypeStrategyI.transact\<close> (lines 388-400).\<close>

definition transact :: "real \<Rightarrow> string \<Rightarrow> PrototypeStrategyI \<Rightarrow> error + PrototypeStrategyI" where
  "transact n src s =
     (let p = price (inst s);
          rec = (ts (inst s), p, n, src)
      in if fund s - p * n \<le> 0 then
           (if p = 0 then Inl ZeroDivisionError
            else
              let newn = fund s / p
              in Inr (s\<lparr>unit := unit s + newn, fund := 0, orders := orders s @ [rec]\<rparr>))
         else Inr (s\<lparr>fund := fund s - p * n, unit := unit s + n, orders := orders s @ [rec]\<rparr>))"

text \<open>Lines 403-407 of \<^verbatim>\<open>PrototypeStrategyI.update\<close>: the snapshot of the tick.\<close>

definition snapshot :: "PrototypeStrategyI \<Rightarrow> PrototypeStrategyI" where
  "snapshot s =
     s\<lparr>o_ts := o_ts s @ [ts (inst s)],
       o_prices := o_prices s @ [price (inst s)],
       funds := funds s @ [fund s],
       units := units s @ [unit s],
       gains := gains s @ [fund s + unit s * price (inst s) - total0 s]\<rparr>"

text \<open>Lines 408-411: the proposal of the primary subroutine, which is updated in place.\<close>

definition primary :: "PrototypeStrategyI \<Rightarrow> error + (real \<times> PrototypeStrategyI)" where
  "primary s =
     (if mode s = ''chase'' then
        (case Chasing_update (inst s) (ChasingRoutine s) of Inl e \<Rightarrow> Inl e
         | Inr (n, c) \<Rightarrow> Inr (n, s\<lparr>ChasingRoutine := c\<rparr>))
      else
        (case TurningPoint_update (inst s) (TurningPointRoutine s) of Inl e \<Rightarrow> Inl e
         | Inr (n, t) \<Rightarrow> Inr (n, s\<lparr>TurningPointRoutine := t\<rparr>)))"

text \<open>Lines 413-419: what is transacted, given the proposal and the controller's answer.\<close>

definition settle :: "real \<Rightarrow> real \<Rightarrow> PrototypeStrategyI \<Rightarrow> error + PrototypeStrategyI" where
  "settle n n2 s =
     (if n2 = 0 then (if n \<noteq> 0 then transact n (mode s) s else Inr s)
      else
        (case transact n2 ''thresholdcontrol'' s of Inl e \<Rightarrow> Inl e
         | Inr s1 \<Rightarrow>
             (case ThresholdControl_kwargs (inst s1) (fund s1) (unit s1) (kwargs s1) of Inl e \<Rightarrow> Inl e
              | Inr tc \<Rightarrow> Inr (s1\<lparr>ThresholdControlRoutine := tc\<rparr>))))"

text \<open>\<^verbatim>\<open>PrototypeStrategyI.update\<close> (lines 401-421).\<close>

definition PrototypeStrategyI_update :: "PrototypeStrategyI \<Rightarrow> error + PrototypeStrategyI" where
  "PrototypeStrategyI_update s =
     (case primary (snapshot s) of Inl e \<Rightarrow> Inl e
      | Inr (n, s1) \<Rightarrow>
          (case ThresholdControl_update (inst s1) (fund s1) n (ThresholdControlRoutine s1) of
             Inl e \<Rightarrow> Inl e
           | Inr (n2, lg, tc) \<Rightarrow> settle n n2 (s1\<lparr>ThresholdControlRoutine := tc\<rparr>)))"

subsection \<open>The caller's loop\<close>

text \<open>
  The caller updates the instrument and then the subroutine, or the strategy, once per
  tick. The drivers below do this for a list of ticks and collect the amounts.
\<close>

fun Chasing_feed ::
  "(timestamp \<times> real) list \<Rightarrow> Instrument \<Rightarrow> Chasing
     \<Rightarrow> error + (real list \<times> Instrument \<times> Chasing)" where
  "Chasing_feed [] i s = Inr ([], i, s)"
| "Chasing_feed ((t, p) # ticks) i s =
     (case Chasing_update (Instrument_update t p i) s of Inl e \<Rightarrow> Inl e
      | Inr (a, s1) \<Rightarrow>
          (case Chasing_feed ticks (Instrument_update t p i) s1 of Inl e \<Rightarrow> Inl e
           | Inr (as, i2, s2) \<Rightarrow> Inr (a # as, i2, s2)))"

fun TurningPoint_feed ::
  "(timestamp \<times> real) list \<Rightarrow> Instrument \<Rightarrow> TurningPoint
     \<Rightarrow> error + (real list \<times> Instrument \<times> TurningPoint)" where
  "TurningPoint_feed [] i s = Inr ([], i, s)"
| "TurningPoint_feed ((t, p) # ticks) i s =
     (case TurningPoint_update (Instrument_update t p i) s of Inl e \<Rightarrow> Inl e
      | Inr (a, s1) \<Rightarrow>
          (case TurningPoint_feed ticks (Instrument_update t p i) s1 of Inl e \<Rightarrow> Inl e
           | Inr (as, i2, s2) \<Rightarrow> Inr (a # as, i2, s2)))"

definition tick :: "timestamp \<Rightarrow> real \<Rightarrow> PrototypeStrategyI \<Rightarrow> error + PrototypeStrategyI" where
  "tick t p s = PrototypeStrategyI_update (s\<lparr>inst := Instrument_update t p (inst s)\<rparr>)"

fun run :: "(timestamp \<times> real) list \<Rightarrow> PrototypeStrategyI \<Rightarrow> error + PrototypeStrategyI" where
  "run [] s = Inr s"
| "run ((t, p) # ticks) s = (case tick t p s of Inl e \<Rightarrow> Inl e | Inr s1 \<Rightarrow> run ticks s1)"

subsection \<open>Scenarios\<close>

text \<open>
  Concrete instruments, subroutines and strategies, built by the constructors above, on
  which the results below are evaluated.
\<close>

definition inst0 :: Instrument where
  "inst0 = \<lparr>price = 100, ts = 0, inst_prices = [(0, 100)]\<rparr>"

text \<open>Ten units and no cash at price 100: a baseline of 1000, default percentages.\<close>

definition tc_boundary :: ThresholdControl where
  "tc_boundary = projr (ThresholdControl_init inst0 0 10 (4 / 10) (2 / 10) (5 / 10) 1)"

text \<open>The same baseline with \<^verbatim>\<open>losingPer = 0\<close>, and with both percentages 0.\<close>

definition tc_zero_losing :: ThresholdControl where
  "tc_zero_losing = projr (ThresholdControl_init inst0 0 10 (4 / 10) 0 (5 / 10) 1)"

definition tc_zero_both :: ThresholdControl where
  "tc_zero_both = projr (ThresholdControl_init inst0 0 10 0 0 (5 / 10) 1)"

text \<open>
  The same baseline and the default thresholds with \<^verbatim>\<open>sellingPerWin = -0.5\<close>, which the
  constructor accepts, and with \<^verbatim>\<open>sellingPerWin = 0\<close>.
\<close>

definition tc_negative_selling :: ThresholdControl where
  "tc_negative_selling = projr (ThresholdControl_init inst0 0 10 (4 / 10) (2 / 10) (- (1 / 2)) 1)"

definition tc_zero_selling :: ThresholdControl where
  "tc_zero_selling = projr (ThresholdControl_init inst0 0 10 (4 / 10) (2 / 10) 0 1)"

text \<open>
  The state that \<^verbatim>\<open>PrototypeStrategyI(inst, 1000, 10, 10)\<close> builds (lines 358-387)
  when no keyword argument is given: the mode is \<^verbatim>\<open>"chase"\<close> and every subroutine
  takes its defaults. The second strategy is built with \<^verbatim>\<open>mode="turning"\<close>.
\<close>

definition strategy0 :: PrototypeStrategyI where
  "strategy0 =
     \<lparr>mode = ''chase'', inst = inst0, fund = 1000, unit = 10,
      total0 = 1000 + 10 * price inst0, unitInit = 10,
      o_ts = [], funds = [], units = [], gains = [], orders = [], o_prices = [],
      kwargs = Map.empty,
      ThresholdControlRoutine = projr (ThresholdControl_kwargs inst0 1000 10 Map.empty),
      ChasingRoutine = projr (Chasing_init inst0 10 1 ''chase'' 5 1 (1 / 2) 50 10 20),
      TurningPointRoutine = projr (TurningPoint_init inst0 ''increase'' (- 1) 10 1 1)\<rparr>"

definition strategy_turning :: PrototypeStrategyI where
  "strategy_turning = strategy0\<lparr>mode := ''turning''\<rparr>"

text \<open>
  The chasing strategy after the ticks 102 and 104, with the instrument already at the
  third tick, 106; what the primary subroutine and the controller return there.
\<close>

definition chase_pre :: PrototypeStrategyI where
  "chase_pre =
     (let s = projr (run [(1, 102), (2, 104)] strategy0)
      in s\<lparr>inst := Instrument_update 3 106 (inst s)\<rparr>)"

definition chase_mid :: PrototypeStrategyI where
  "chase_mid = snd (projr (primary (snapshot chase_pre)))"

definition chase_tc :: ThresholdControl where
  "chase_tc =
     snd (snd (projr (ThresholdControl_update (inst chase_mid) (fund chase_mid) 50
                        (ThresholdControlRoutine chase_mid))))"

text \<open>The turning strategy after the ticks 101 and 103, with the instrument back at 101.\<close>

definition turning_pre :: PrototypeStrategyI where
  "turning_pre =
     (let s = projr (run [(1, 101), (2, 103)] strategy_turning)
      in s\<lparr>inst := Instrument_update 3 101 (inst s)\<rparr>)"

definition turning_mid :: PrototypeStrategyI where
  "turning_mid = snd (projr (primary (snapshot turning_pre)))"

definition turning_tc :: ThresholdControl where
  "turning_tc =
     snd (snd (projr (ThresholdControl_update (inst turning_mid) (fund turning_mid) (- 10)
                        (ThresholdControlRoutine turning_mid))))"

text \<open>A safety-mode Chasing with an upward trend, and its state after a first tick at 99.\<close>

definition chasing_safety :: Chasing where
  "chasing_safety = projr (Chasing_init inst0 10 1 ''safety'' 5 1 (1 / 2) 50 10 20)"

definition safety_c1 :: Chasing where
  "safety_c1 = snd (snd (projr (Chasing_feed [(1, 99)] inst0 chasing_safety)))"

definition inst_94 :: Instrument where
  "inst_94 = Instrument_update 2 94 (Instrument_update 1 99 inst0)"

text \<open>
  A TurningPoint with the sizes \<^verbatim>\<open>n = 1.7\<close> and \<^verbatim>\<open>n_delta = 1.5\<close>, and the default
  one after the ticks 101 and 103, with the instrument back at 101.
\<close>

definition turning_frac :: TurningPoint where
  "turning_frac = projr (TurningPoint_init inst0 ''increase'' (- 1) (17 / 10) (15 / 10) 1)"

definition turning2 :: TurningPoint where
  "turning2 =
     snd (snd (projr (TurningPoint_feed [(1, 101), (2, 103)] inst0 (TurningPointRoutine strategy0))))"

definition inst_101 :: Instrument where
  "inst_101 = Instrument_update 3 101 (Instrument_update 2 103 (Instrument_update 1 101 inst0))"

definition turning3 :: TurningPoint where
  "turning3 = snd (projr (TurningPoint_update inst_101 turning2))"

text \<open>
  The default Chasing and TurningPoint after one tick at 102, and the instrument after a
  second tick at the same price.
\<close>

definition chasing_c1 :: Chasing where
  "chasing_c1 = snd (snd (projr (Chasing_feed [(1, 102)] inst0 (ChasingRoutine strategy0))))"

definition turning_t1 :: TurningPoint where
  "turning_t1 =
     snd (snd (projr (TurningPoint_feed [(1, 102)] inst0 (TurningPointRoutine strategy0))))"

definition inst_102 :: Instrument where
  "inst_102 = Instrument_update 2 102 (Instrument_update 1 102 inst0)"

section \<open>Results\<close>

subsection \<open>transact\<close>

text \<open>
  C1. From a state with \<open>fund \<ge> 0\<close> and a positive price, \<^verbatim>\<open>transact(n, src)\<close>
  returns for every signed \<open>n\<close>, and the new fund is not negative: when
  \<open>fund - price * n \<le> 0\<close> the unit is credited by exactly \<open>fund / price\<close> and the fund
  becomes exactly 0; otherwise the fund is debited by \<open>price * n\<close> and the unit credited
  by \<open>n\<close>. In both cases exactly one order record is appended.
\<close>

theorem transact_fund_never_negative:
  assumes "0 \<le> fund s" and "0 < price (inst s)"
  shows "\<exists>s'. transact n src s = Inr s' \<and> 0 \<le> fund s'
           \<and> (if fund s - price (inst s) * n \<le> 0
               then unit s' = unit s + fund s / price (inst s) \<and> fund s' = 0
               else fund s' = fund s - price (inst s) * n \<and> unit s' = unit s + n)
           \<and> orders s' = orders s @ [(ts (inst s), price (inst s), n, src)]
           \<and> length (orders s') = length (orders s) + 1"
  using assms by (simp add: transact_def Let_def)

theorem transact_fund_never_negative_witness:
  "0 \<le> fund strategy0 \<and> 0 < price (inst strategy0)
   \<and> (\<exists>s'. transact 20 ''other'' strategy0 = Inr s' \<and> fund s' = 0 \<and> unit s' = 20
         \<and> orders s' = [(0, 100, 20, ''other'')])"
proof -
  have a: "0 \<le> fund strategy0" and b: "0 < price (inst strategy0)"
    by (simp_all add: strategy0_def inst0_def)
  from transact_fund_never_negative [OF a b, of 20 "''other''"]
  show ?thesis
    by (simp add: strategy0_def inst0_def) blast
qed

subsection \<open>ThresholdControl: construction\<close>

text \<open>
  C9, as the code has it. Construction succeeds exactly when none of the four
  percentages is greater than 1; there is no lower bound.
\<close>

theorem tc_init_succeeds_iff:
  "(\<exists>tc. ThresholdControl_init i f u wP lP sPW sPL = Inr tc)
     \<longleftrightarrow> (wP \<le> 1 \<and> lP \<le> 1 \<and> sPW \<le> 1 \<and> sPL \<le> 1)"
  by (auto simp add: ThresholdControl_init_def)

theorem tc_init_succeeds_iff_witness:
  "ThresholdControl_init inst0 1000 10 (4 / 10) (2 / 10) (5 / 10) 2
     = Inl (ValueError ''Selling Per incorrect'')
   \<and> (\<exists>tc. ThresholdControl_init inst0 1000 10 (4 / 10) (2 / 10) (5 / 10) 1 = Inr tc)"
  using tc_init_succeeds_iff [of inst0 1000 10 "4 / 10" "2 / 10" "5 / 10" 1]
  by (simp add: ThresholdControl_init_def)

text \<open>
  C9 as stated fails: a \<^verbatim>\<open>winningPer\<close> of \<open>-1\<close>, outside \<open>[0,1]\<close>, is accepted.
\<close>

theorem tc_init_negative_accepted:
  "(\<exists>tc. ThresholdControl_init inst0 1000 10 (- 1) (2 / 10) (5 / 10) 1 = Inr tc)
   \<and> \<not> (0 \<le> (- 1 :: real) \<and> (- 1 :: real) \<le> 1)"
  by (simp add: ThresholdControl_init_def)

subsection \<open>ThresholdControl: the winning branch\<close>

lemma tc_update_winning_iff:
  assumes "tc_units s \<noteq> []" and "last (tc_units s) + deltaUnit \<noteq> 0" and "tc_total0 s \<noteq> 0"
  shows "(\<exists>d s'. ThresholdControl_update i fundIn deltaUnit s = Inr (d, Some WinningControl, s'))
         \<longleftrightarrow> (fundIn + (last (tc_units s) + deltaUnit) * price i - tc_total0 s \<ge> 0
              \<and> (fundIn + (last (tc_units s) + deltaUnit) * price i - tc_total0 s) / tc_total0 s
                  \<ge> winningPer s)"
  using assms by (auto simp add: ThresholdControl_update_def Let_def)

lemma tc_update_winning_delta:
  assumes "ThresholdControl_update i fundIn deltaUnit s = Inr (d, Some WinningControl, s')"
  shows "d = (if last (tc_units s) + deltaUnit > 0
              then - min (abs (last (tc_units s) + deltaUnit))
                         (abs (last (tc_units s) + deltaUnit) * sellingPerWin s)
              else min (abs (last (tc_units s) + deltaUnit))
                       (abs (last (tc_units s) + deltaUnit) * sellingPerWin s))"
  using assms by (auto simp add: ThresholdControl_update_def Let_def min_def split: if_splits)

text \<open>
  C3, as the code has it. For an update whose resulting \<open>unit = last_unit + deltaUnit\<close> is
  not zero (and a baseline \<open>total0\<close> by which one can divide), with
  \<open>gain = fund + unit * price - total0\<close>: the winning branch is taken exactly when
  \<open>gain \<ge> 0\<close> and \<open>gain / total0 \<ge> winningPer\<close>, the bound included. The returned delta
  is the size \<open>m = min \<bar>unit\<bar> (\<bar>unit\<bar> * sellingPerWin)\<close>, negated when \<open>unit > 0\<close> and as
  it is when \<open>unit < 0\<close>. Only for a \<open>sellingPerWin\<close> that is not negative is \<open>m\<close> the
  magnitude of the delta and does the delta move \<open>unit\<close> towards zero (not positive when
  \<open>unit > 0\<close>, not negative when \<open>unit < 0\<close>); only for a positive \<open>sellingPerWin\<close> is it
  strictly negative when \<open>unit > 0\<close> and strictly positive when \<open>unit < 0\<close>.
\<close>

theorem tc_winning_branch:
  assumes "tc_units s \<noteq> []" and "last (tc_units s) + deltaUnit \<noteq> 0" and "tc_total0 s \<noteq> 0"
  shows "let unit = last (tc_units s) + deltaUnit;
             gain = fundIn + unit * price i - tc_total0 s;
             m = min (abs unit) (abs unit * sellingPerWin s);
             r = ThresholdControl_update i fundIn deltaUnit s
         in ((\<exists>d s'. r = Inr (d, Some WinningControl, s'))
               \<longleftrightarrow> (gain \<ge> 0 \<and> gain / tc_total0 s \<ge> winningPer s))
          \<and> (\<forall>d s'. r = Inr (d, Some WinningControl, s') \<longrightarrow>
                d = (if unit > 0 then - m else m)
              \<and> (0 \<le> sellingPerWin s \<longrightarrow>
                    abs d = m \<and> (unit > 0 \<longrightarrow> d \<le> 0) \<and> (unit < 0 \<longrightarrow> d \<ge> 0)
                  \<and> abs (unit + d) \<le> abs unit)
              \<and> (0 < sellingPerWin s \<longrightarrow> (unit > 0 \<longrightarrow> d < 0) \<and> (unit < 0 \<longrightarrow> d > 0)))"
proof -
  define u where "u = last (tc_units s) + deltaUnit"
  define m where "m = min (abs u) (abs u * sellingPerWin s)"
  have u0: "u \<noteq> 0" using assms(2) by (simp add: u_def)
  have iff: "(\<exists>d s'. ThresholdControl_update i fundIn deltaUnit s = Inr (d, Some WinningControl, s'))
         \<longleftrightarrow> (fundIn + u * price i - tc_total0 s \<ge> 0
              \<and> (fundIn + u * price i - tc_total0 s) / tc_total0 s \<ge> winningPer s)"
    unfolding u_def by (rule tc_update_winning_iff [OF assms])
  have delta: "d = (if u > 0 then - m else m)"
    if "ThresholdControl_update i fundIn deltaUnit s = Inr (d, Some WinningControl, s')" for d s'
    unfolding u_def m_def by (rule tc_update_winning_delta [OF that])
  have nonneg: "0 \<le> m" if "0 \<le> sellingPerWin s"
    using that by (simp add: m_def)
  have pos: "0 < m" if "0 < sellingPerWin s"
    using that u0 by (simp add: m_def)
  have le: "m \<le> abs u" by (simp add: m_def)
  have rest: "d = (if u > 0 then - m else m)
              \<and> (0 \<le> sellingPerWin s \<longrightarrow>
                    abs d = m \<and> (u > 0 \<longrightarrow> d \<le> 0) \<and> (u < 0 \<longrightarrow> d \<ge> 0)
                  \<and> abs (u + d) \<le> abs u)
              \<and> (0 < sellingPerWin s \<longrightarrow> (u > 0 \<longrightarrow> d < 0) \<and> (u < 0 \<longrightarrow> d > 0))"
    if "ThresholdControl_update i fundIn deltaUnit s = Inr (d, Some WinningControl, s')" for d s'
    using delta [OF that] nonneg pos le u0 by auto
  show ?thesis
    unfolding Let_def u_def [symmetric] m_def [symmetric]
    using iff rest by blast
qed

text \<open>
  The boundary of the specification: a baseline of 1000, \<^verbatim>\<open>winningPer = 0.4\<close> and a
  gain of exactly 400 take the winning branch, selling half of the ten units.
\<close>

theorem tc_winning_branch_witness:
  "tc_units tc_boundary \<noteq> [] \<and> last (tc_units tc_boundary) + 0 \<noteq> 0 \<and> tc_total0 tc_boundary = 1000
   \<and> winningPer tc_boundary = 4 / 10
   \<and> 400 + (last (tc_units tc_boundary) + 0) * price inst0 - tc_total0 tc_boundary = 400
   \<and> (\<exists>s'. ThresholdControl_update inst0 400 0 tc_boundary = Inr (- 5, Some WinningControl, s'))"
proof -
  have a: "tc_units tc_boundary \<noteq> []" and b: "last (tc_units tc_boundary) + 0 \<noteq> 0"
    and c: "tc_total0 tc_boundary \<noteq> 0"
    by (simp_all add: tc_boundary_def ThresholdControl_init_def inst0_def)
  from tc_winning_branch [OF a b c, of 400 inst0]
  show ?thesis
    by (simp add: Let_def tc_boundary_def ThresholdControl_init_def inst0_def) blast
qed

text \<open>
  C3 as stated fails. With \<^verbatim>\<open>sellingPerWin = -0.5\<close>, which construction accepts, ten
  units held and a gain of 400 on a baseline of 1000, the winning branch returns \<open>+5\<close>: a
  delta that is positive although \<open>unit > 0\<close>, that moves the unit away from zero, and
  whose magnitude is not \<open>min 10 (10 * (-0.5))\<close>. With \<^verbatim>\<open>sellingPerWin = 0\<close> the winning
  branch returns 0, which is not negative.
\<close>

theorem tc_winning_negative_selling:
  "(\<exists>tc. ThresholdControl_init inst0 0 10 (4 / 10) (2 / 10) (- (1 / 2)) 1 = Inr tc
        \<and> tc = tc_negative_selling)
   \<and> last (tc_units tc_negative_selling) + 0 = 10
   \<and> 400 + (last (tc_units tc_negative_selling) + 0) * price inst0
         - tc_total0 tc_negative_selling = 400
   \<and> (\<exists>s'. ThresholdControl_update inst0 400 0 tc_negative_selling
               = Inr (5, Some WinningControl, s')
          \<and> last (tc_units s') = 15)
   \<and> \<not> ((5 :: real) < 0)
   \<and> abs (5 :: real) \<noteq> min (abs 10) (abs 10 * sellingPerWin tc_negative_selling)
   \<and> \<not> (abs (10 + 5 :: real) \<le> abs 10)
   \<and> (\<exists>s'. ThresholdControl_update inst0 400 0 tc_zero_selling
               = Inr (0, Some WinningControl, s'))"
  by (simp add: tc_negative_selling_def tc_zero_selling_def ThresholdControl_init_def
      ThresholdControl_update_def inst0_def Let_def)

subsection \<open>ThresholdControl: a gain of exactly zero\<close>

text \<open>
  C4, as the code has it. At a gain of exactly 0 (unit and baseline not zero) the quotient
  \<open>gain / total0\<close> is 0, so the winning branch is taken exactly when \<open>winningPer \<le> 0\<close>;
  failing that, the losing branch is taken exactly when \<open>losingPer \<le> 0\<close>; failing both,
  no branch is taken and the update returns 0. The winning test comes first, so it wins
  when both percentages are 0.
\<close>

theorem tc_zero_gain:
  assumes "tc_units s \<noteq> []" and "last (tc_units s) + deltaUnit \<noteq> 0" and "tc_total0 s \<noteq> 0"
      and "fundIn + (last (tc_units s) + deltaUnit) * price i - tc_total0 s = 0"
  shows "\<exists>d lg s'. ThresholdControl_update i fundIn deltaUnit s = Inr (d, lg, s')
           \<and> lg = (if winningPer s \<le> 0 then Some WinningControl
                   else if losingPer s \<le> 0 then Some LosingControl
                   else None)
           \<and> (lg = None \<longrightarrow> d = 0)"
  using assms by (simp add: ThresholdControl_update_def Let_def)

theorem tc_zero_gain_witness:
  "tc_units tc_zero_both \<noteq> [] \<and> last (tc_units tc_zero_both) + 0 \<noteq> 0 \<and> tc_total0 tc_zero_both \<noteq> 0
   \<and> 0 + (last (tc_units tc_zero_both) + 0) * price inst0 - tc_total0 tc_zero_both = 0
   \<and> (\<exists>d s'. ThresholdControl_update inst0 0 0 tc_zero_both = Inr (d, Some WinningControl, s'))"
proof -
  have a: "tc_units tc_zero_both \<noteq> []" and b: "last (tc_units tc_zero_both) + 0 \<noteq> 0"
    and c: "tc_total0 tc_zero_both \<noteq> 0"
    and d: "0 + (last (tc_units tc_zero_both) + 0) * price inst0 - tc_total0 tc_zero_both = 0"
    by (simp_all add: tc_zero_both_def ThresholdControl_init_def inst0_def)
  from tc_zero_gain [OF a b c d]
  show ?thesis
    by (simp add: tc_zero_both_def ThresholdControl_init_def inst0_def)
qed

text \<open>
  C4 as stated fails: with \<^verbatim>\<open>winningPer = 0.4\<close> and \<^verbatim>\<open>losingPer = 0\<close>, both in
  \<open>[0,1]\<close>, a gain of exactly 0 takes the losing branch and sells all ten units.
\<close>

theorem tc_zero_gain_takes_losing:
  "0 \<le> winningPer tc_zero_losing \<and> winningPer tc_zero_losing \<le> 1
   \<and> 0 \<le> losingPer tc_zero_losing \<and> losingPer tc_zero_losing \<le> 1
   \<and> last (tc_units tc_zero_losing) + 0 \<noteq> 0
   \<and> 0 + (last (tc_units tc_zero_losing) + 0) * price inst0 - tc_total0 tc_zero_losing = 0
   \<and> (\<exists>s'. ThresholdControl_update inst0 0 0 tc_zero_losing = Inr (- 10, Some LosingControl, s'))"
  by (simp add: tc_zero_losing_def ThresholdControl_init_def ThresholdControl_update_def
      inst0_def Let_def)

subsection \<open>Chasing: the stepped buy\<close>

lemmas chasing_eval = Chasing_init_def Chasing_update_def chase_up_def chase_down_def
  safety_up_def safety_down_def Instrument_update_def inst0_def Let_def

text \<open>
  C5. A Chasing in chase mode with trend \<open>+1\<close>, gap 5, upper limit 1, init 50 and inc 10 is
  built at price 100, so that \<open>nextStepUp = 105\<close> and \<open>stack = 0\<close>, and fed 102, 104, 106,
  111. The amounts are 0, 0, 50, 0: one buy, of size 50, at the tick 106 where
  \<open>price \<ge> nextStepUp + upper_limit\<close>. On that tick the size is
  \<open>max 0 (init - stack * inc)\<close>, \<open>nextStepUp\<close> becomes \<open>price + gap\<close>, the armed flag is
  cleared and \<open>stack\<close> becomes 1, which it still is after the last tick. This holds for
  every lower limit, safety amount and initial unit.
\<close>

theorem chasing_single_buy:
  "\<exists>c0 i2 c2 i3 c3 i4 c4.
     Chasing_init inst0 u 1 ''chase'' 5 1 ll 50 10 sa = Inr c0
   \<and> nextStepUp c0 = 105 \<and> stack c0 = 0
   \<and> Chasing_feed [(1, 102), (2, 104)] inst0 c0 = Inr ([0, 0], i2, c2)
   \<and> Chasing_feed [(3, 106)] i2 c2 = Inr ([50], i3, c3)
   \<and> price i3 \<ge> nextStepUp c2 + upper_limit c2
   \<and> 50 = max 0 (c_init c2 - real_of_int (stack c2) * inc c2)
   \<and> stack c3 = 1 \<and> nextStepUp c3 = price i3 + gap c2 \<and> c_buysell c3 = 0
   \<and> Chasing_feed [(4, 111)] i3 c3 = Inr ([0], i4, c4)
   \<and> stack c4 = 1
   \<and> Chasing_feed [(1, 102), (2, 104), (3, 106), (4, 111)] inst0 c0 = Inr ([0, 0, 50, 0], i4, c4)"
  by (simp add: chasing_eval)

subsection \<open>Chasing: arming in safety mode\<close>

text \<open>
  C6, as the code has it. In safety mode with trend \<open>+1\<close>, on a tick with a price move,
  once a direction has been recorded and while the flag is idle: if
  \<open>price \<ge> nextStepUp\<close> or \<open>price \<le> nextStepDown\<close> the sell flag is armed and
  \<open>nextStepDown\<close> becomes \<open>price - gap\<close>; \<open>nextStepUp\<close> becomes \<open>price + gap\<close> only when
  the upper threshold was the one reached, and is left as it was otherwise.
\<close>

theorem safety_idle_arming:
  assumes "c_mode s = ''safety''" and "trend s = 1" and "c_buysell s = 0"
      and "c_prices s \<noteq> []" and "price i \<noteq> last (c_prices s)" and "c_direction s \<noteq> 0"
      and "price i \<ge> nextStepUp s \<or> price i \<le> nextStepDown s"
  shows "\<exists>s'. Chasing_update i s = Inr (0, s') \<and> c_buysell s' = - 1
           \<and> nextStepDown s' = price i - gap s
           \<and> nextStepUp s' = (if price i \<ge> nextStepUp s then price i + gap s else nextStepUp s)"
  using assms by (auto simp add: Chasing_update_def safety_up_def Let_def)

theorem safety_idle_arming_witness:
  "c_mode safety_c1 = ''safety'' \<and> trend safety_c1 = 1 \<and> c_buysell safety_c1 = 0
   \<and> c_prices safety_c1 \<noteq> [] \<and> price inst_94 \<noteq> last (c_prices safety_c1)
   \<and> c_direction safety_c1 \<noteq> 0 \<and> price inst_94 \<le> nextStepDown safety_c1
   \<and> (\<exists>s'. Chasing_update inst_94 safety_c1 = Inr (0, s') \<and> c_buysell s' = - 1
          \<and> nextStepDown s' = 89 \<and> nextStepUp s' = 105)"
proof -
  have h: "c_mode safety_c1 = ''safety''" "trend safety_c1 = 1" "c_buysell safety_c1 = 0"
    "c_prices safety_c1 \<noteq> []" "price inst_94 \<noteq> last (c_prices safety_c1)"
    "c_direction safety_c1 \<noteq> 0"
    "price inst_94 \<ge> nextStepUp safety_c1 \<or> price inst_94 \<le> nextStepDown safety_c1"
    by (simp_all add: safety_c1_def inst_94_def chasing_safety_def chasing_eval)
  from safety_idle_arming [OF h]
  show ?thesis
    by (simp add: safety_c1_def inst_94_def chasing_safety_def chasing_eval)
qed

text \<open>
  C6 as stated fails: built at 100 with gap 5 and fed 99 and then 94, the subroutine is
  armed by the lower threshold 95; \<open>nextStepDown\<close> becomes 89, but \<open>nextStepUp\<close> stays 105
  and is not reset to \<open>94 + 5\<close>.
\<close>

theorem safety_down_trigger_keeps_nextStepUp:
  "\<exists>i1 c1 i2 c2.
     c_mode chasing_safety = ''safety'' \<and> trend chasing_safety = 1
   \<and> Chasing_feed [(1, 99)] inst0 chasing_safety = Inr ([0], i1, c1)
   \<and> c_buysell c1 = 0 \<and> nextStepUp c1 = 105 \<and> nextStepDown c1 = 95
   \<and> Chasing_feed [(2, 94)] i1 c1 = Inr ([0], i2, c2)
   \<and> price i2 \<noteq> last (c_prices c1) \<and> price i2 \<le> nextStepDown c1
   \<and> c_buysell c2 = - 1 \<and> nextStepDown c2 = price i2 - gap c1
   \<and> nextStepUp c2 = 105 \<and> nextStepUp c2 \<noteq> price i2 + gap c1"
  by (simp add: chasing_safety_def chasing_eval)

subsection \<open>TurningPoint: the adaptive step\<close>

lemma max_py_int: "max 0 (real_of_int (py_int q)) = max 0 (real_of_int \<lfloor>q\<rfloor>)"
proof (cases "q \<ge> 0")
  case True
  then show ?thesis by (simp add: py_int_def)
next
  case False
  then have q: "q \<le> 0" by simp
  have c: "real_of_int \<lceil>q\<rceil> \<le> 0" using q by (simp add: ceiling_le_zero)
  have f: "real_of_int \<lfloor>q\<rfloor> \<le> 0" using q by linarith
  have p: "py_int q = \<lceil>q\<rceil>" using False by (simp add: py_int_def)
  show ?thesis
    unfolding p by (simp only: max_absorb1 [OF c] max_absorb1 [OF f])
qed

lemma adaptive_step_eq:
  "adaptive_step nd g p =
     (if nd > g / p then max 0 (real_of_int \<lfloor>g / p\<rfloor>) else max 0 nd)"
proof -
  have "adaptive_step nd g p =
     (if nd > g / p then max 0 (real_of_int (py_int (g / p))) else max 0 nd)"
    by (simp add: adaptive_step_def Let_def max_def)
  then show ?thesis by (simp add: max_py_int)
qed

lemma integral_step:
  assumes "nd \<in> \<int>"
  shows "(if nd > q then max 0 (real_of_int \<lfloor>q\<rfloor>) else max 0 nd)
           = max 0 (min nd (real_of_int \<lfloor>q\<rfloor>))"
proof -
  from assms obtain k :: int where k: "nd = real_of_int k" by (auto elim: Ints_cases)
  show ?thesis
  proof (cases "nd > q")
    case True
    then have "real_of_int \<lfloor>q\<rfloor> \<le> nd" by linarith
    with True show ?thesis by (simp add: min_def)
  next
    case False
    then have "k \<le> \<lfloor>q\<rfloor>" using k by (simp add: le_floor_iff)
    then have "nd \<le> real_of_int \<lfloor>q\<rfloor>" using k by simp
    with False show ?thesis by (simp add: min_def)
  qed
qed

lemma turning_update_trade:
  assumes "TurningPoint_update i s = Inr (a, s')" and "a \<noteq> 0"
  shows "tp_gain s' = tp_gain s - a * price i
       \<and> buying s' = buying s
            + (if tp_mode s = ''decrease'' then 0
               else adaptive_step (n_delta s) (tp_gain s') (price i))
       \<and> selling s' = selling s
            + (if tp_mode s = ''increase'' then 0
               else adaptive_step (n_delta s) (tp_gain s') (price i))"
  using assms
  by (auto simp add: TurningPoint_update_def Let_def split: if_splits)

text \<open>
  C7, as the code has it. After a tick that emits a nonzero amount \<open>a\<close>, the ledger has
  been debited by \<open>a * price\<close>, and with \<open>q = gain / price\<close> for the new ledger value the
  step is \<open>max 0 \<lfloor>q\<rfloor>\<close> when the configured \<open>n_delta\<close> is greater than \<open>q\<close>, and
  \<open>max 0 n_delta\<close> otherwise. It is added to \<open>buying\<close> in mode increase, to \<open>selling\<close> in
  mode decrease and to both in mode size. For an \<open>n_delta\<close> that is a whole number the
  step is \<open>max 0 (min n_delta \<lfloor>q\<rfloor>)\<close>.
\<close>

theorem turning_adaptive_step:
  assumes "TurningPoint_update i s = Inr (a, s')" and "a \<noteq> 0"
  shows "let q = tp_gain s' / price i;
             step = (if n_delta s > q then max 0 (real_of_int \<lfloor>q\<rfloor>) else max 0 (n_delta s))
         in tp_gain s' = tp_gain s - a * price i
          \<and> buying s' = buying s + (if tp_mode s = ''decrease'' then 0 else step)
          \<and> selling s' = selling s + (if tp_mode s = ''increase'' then 0 else step)
          \<and> (n_delta s \<in> \<int> \<longrightarrow> step = max 0 (min (n_delta s) (real_of_int \<lfloor>q\<rfloor>)))"
proof -
  define q where "q = tp_gain s' / price i"
  define step where
    "step = (if n_delta s > q then max 0 (real_of_int \<lfloor>q\<rfloor>) else max 0 (n_delta s))"
  have st: "adaptive_step (n_delta s) (tp_gain s') (price i) = step"
    unfolding step_def q_def by (rule adaptive_step_eq)
  have int: "step = max 0 (min (n_delta s) (real_of_int \<lfloor>q\<rfloor>))" if "n_delta s \<in> \<int>"
    unfolding step_def by (rule integral_step [OF that])
  from turning_update_trade [OF assms] st int
  have "tp_gain s' = tp_gain s - a * price i
      \<and> buying s' = buying s + (if tp_mode s = ''decrease'' then 0 else step)
      \<and> selling s' = selling s + (if tp_mode s = ''increase'' then 0 else step)
      \<and> (n_delta s \<in> \<int> \<longrightarrow> step = max 0 (min (n_delta s) (real_of_int \<lfloor>q\<rfloor>)))"
    by simp
  then show ?thesis
    unfolding Let_def q_def [symmetric] step_def [symmetric] .
qed

lemmas turning_eval = TurningPoint_init_def TurningPoint_update_def adaptive_step_def py_int_def
  Instrument_update_def inst0_def Let_def

theorem turning_adaptive_step_witness:
  "TurningPoint_update inst_101 turning2 = Inr (- 10, turning3) \<and> (- 10 :: real) \<noteq> 0
   \<and> tp_mode turning2 = ''increase'' \<and> n_delta turning2 = 1
   \<and> tp_gain turning3 = 1010 \<and> buying turning3 = 11 \<and> selling turning3 = 10"
proof -
  have h: "TurningPoint_update inst_101 turning2 = Inr (- 10, turning3)"
    by (simp add: turning3_def turning2_def inst_101_def strategy0_def turning_eval)
  have n: "(- 10 :: real) \<noteq> 0" by simp
  from turning_adaptive_step [OF h n]
  show ?thesis
    by (simp add: turning3_def turning2_def inst_101_def strategy0_def turning_eval)
qed

text \<open>
  C7 as stated fails for a fractional \<open>n_delta\<close>: with \<^verbatim>\<open>n = 1.7\<close>,
  \<^verbatim>\<open>n_delta = 1.5\<close> and the ticks 101, 103, 101 the third tick sells 1.7 at 101, the
  ledger is 171.7 and the quotient 1.7; \<open>buying\<close> grows by 1.5, where the stated formula
  gives \<open>max 0 (min 1.5 \<lfloor>1.7\<rfloor>) = 1\<close>.
\<close>

theorem turning_fractional_step:
  "\<exists>i2 t2 i3 t3.
     TurningPoint_feed [(1, 101), (2, 103)] inst0 turning_frac = Inr ([0, 0], i2, t2)
   \<and> TurningPoint_feed [(3, 101)] i2 t2 = Inr ([- (17 / 10)], i3, t3)
   \<and> tp_mode t2 = ''increase'' \<and> n_delta t2 = 15 / 10
   \<and> tp_gain t3 / price i3 = 17 / 10
   \<and> buying t3 - buying t2 = 15 / 10
   \<and> max 0 (min (n_delta t2) (real_of_int \<lfloor>tp_gain t3 / price i3\<rfloor>)) = 1"
  by (simp add: turning_frac_def turning_eval)

subsection \<open>A tick at the price of the tick before\<close>

lemmas strategy_eval = strategy0_def strategy_turning_def tick_def PrototypeStrategyI_update_def
  snapshot_def primary_def settle_def transact_def
  ThresholdControl_kwargs_def kw_float_def ThresholdControl_init_def ThresholdControl_update_def
  Chasing_init_def Chasing_update_def chase_up_def chase_down_def safety_up_def safety_down_def
  TurningPoint_init_def TurningPoint_update_def adaptive_step_def py_int_def
  Instrument_update_def inst0_def Let_def

lemma tc_update_appends:
  assumes "ThresholdControl_update i f d tc = Inr (x, lg, tc')"
  shows "tc_prices tc' = tc_prices tc @ [price i] \<and> tc_times tc' = tc_times tc @ [ts i]"
  using assms
  by (auto simp add: ThresholdControl_update_def Let_def split: if_splits)

text \<open>
  C8, as the code has it. For Chasing and for TurningPoint, a tick whose price is the
  last recorded price returns 0 and changes no field but the two histories: the price and
  the time are appended to \<open>prices\<close> and \<open>times\<close>. ThresholdControl does not compare
  prices: every update that returns appends the price and the time, and it weighs the
  thresholds as on any other tick.
\<close>

theorem repeated_price_tick:
  assumes "c_prices c \<noteq> []" and "price i = last (c_prices c)"
      and "tp_prices t \<noteq> []" and "price i = last (tp_prices t)"
  shows "Chasing_update i c
           = Inr (0, c\<lparr>c_prices := c_prices c @ [price i], c_times := c_times c @ [ts i]\<rparr>)
       \<and> TurningPoint_update i t
           = Inr (0, t\<lparr>tp_prices := tp_prices t @ [price i], tp_times := tp_times t @ [ts i]\<rparr>)
       \<and> (\<forall>x lg tc'. ThresholdControl_update i f d tc = Inr (x, lg, tc') \<longrightarrow>
             tc_prices tc' = tc_prices tc @ [price i] \<and> tc_times tc' = tc_times tc @ [ts i])"
proof -
  have "Chasing_update i c
           = Inr (0, c\<lparr>c_prices := c_prices c @ [price i], c_times := c_times c @ [ts i]\<rparr>)"
    using assms(1,2) by (simp add: Chasing_update_def Let_def)
  moreover have "TurningPoint_update i t
           = Inr (0, t\<lparr>tp_prices := tp_prices t @ [price i], tp_times := tp_times t @ [ts i]\<rparr>)"
    using assms(3,4) by (simp add: TurningPoint_update_def Let_def)
  ultimately show ?thesis
    using tc_update_appends [of i f d tc] by blast
qed

theorem repeated_price_tick_witness:
  "c_prices chasing_c1 \<noteq> [] \<and> price inst_102 = last (c_prices chasing_c1)
   \<and> tp_prices turning_t1 \<noteq> [] \<and> price inst_102 = last (tp_prices turning_t1)
   \<and> (\<exists>c'. Chasing_update inst_102 chasing_c1 = Inr (0, c')
          \<and> c_prices c' = [100, 102, 102] \<and> c_times c' = [0, 1, 2]
          \<and> c_direction c' = c_direction chasing_c1 \<and> c_buysell c' = c_buysell chasing_c1)
   \<and> (\<exists>t'. TurningPoint_update inst_102 turning_t1 = Inr (0, t')
          \<and> tp_prices t' = [100, 102, 102] \<and> tp_times t' = [0, 1, 2]
          \<and> tp_direction t' = tp_direction turning_t1 \<and> tp_gains t' = tp_gains turning_t1)"
proof -
  have h: "c_prices chasing_c1 \<noteq> []" "price inst_102 = last (c_prices chasing_c1)"
    "tp_prices turning_t1 \<noteq> []" "price inst_102 = last (tp_prices turning_t1)"
    by (simp_all add: chasing_c1_def turning_t1_def inst_102_def strategy_eval)
  from repeated_price_tick [OF h]
  show ?thesis
    by (simp add: chasing_c1_def turning_t1_def inst_102_def strategy_eval)
qed

text \<open>
  C8 as stated fails twice. A Chasing fed 102 and then 102 again is not, after the second
  tick, the state it was after the first: its price history has grown. And the turning
  strategy fed 101, 103, 101 and then 101 again trades on the repeated price: on the
  third tick the proposal of \<open>-10\<close> brings the controller's unit to 0, so it returns
  before recording it, and on the fourth tick it still counts ten units against the cash
  of the sale, takes the winning branch and sells 5.
\<close>

theorem repeated_price_changes_state:
  "(\<exists>i1 c1 i2 c2.
        Chasing_feed [(1, 102)] inst0 (ChasingRoutine strategy0) = Inr ([0], i1, c1)
      \<and> Chasing_feed [(2, 102)] i1 c1 = Inr ([0], i2, c2)
      \<and> price i2 = price i1 \<and> c2 \<noteq> c1 \<and> c_prices c2 = c_prices c1 @ [102])
   \<and> (\<exists>s3 s4. run [(1, 101), (2, 103), (3, 101)] strategy_turning = Inr s3
        \<and> price (inst s3) = 101
        \<and> tick 4 101 s3 = Inr s4
        \<and> orders s4 = orders s3 @ [(4, 101, - 5, ''thresholdcontrol'')]
        \<and> unit s3 = 0 \<and> unit s4 = - 5
        \<and> tc_prices (ThresholdControlRoutine s3) \<noteq> tc_prices (ThresholdControlRoutine s4))"
  by (simp add: strategy_eval)

subsection \<open>PrototypeStrategyI.update\<close>

lemma tc_kwargs_fresh:
  assumes "ThresholdControl_kwargs i0 f0 u0 kw = Inr tc0"
  shows "\<exists>tc. ThresholdControl_kwargs i f u kw = Inr tc
           \<and> tc_total0 tc = f + u * price i
           \<and> tc_funds tc = [f] \<and> tc_units tc = [u]
           \<and> tc_prices tc = [price i] \<and> tc_times tc = [ts i]"
  using assms
  by (auto simp add: ThresholdControl_kwargs_def ThresholdControl_init_def
      split: sum.splits if_splits)

lemma transact_returns:
  assumes "price (inst s) \<noteq> 0"
  shows "\<exists>s'. transact n src s = Inr s'
           \<and> orders s' = orders s @ [(ts (inst s), price (inst s), n, src)]
           \<and> (if fund s - price (inst s) * n \<le> 0
               then unit s' = unit s + fund s / price (inst s) \<and> fund s' = 0
               else fund s' = fund s - price (inst s) * n \<and> unit s' = unit s + n)
           \<and> inst s' = inst s \<and> kwargs s' = kwargs s \<and> mode s' = mode s
           \<and> ChasingRoutine s' = ChasingRoutine s
           \<and> TurningPointRoutine s' = TurningPointRoutine s
           \<and> ThresholdControlRoutine s' = ThresholdControlRoutine s"
  using assms by (simp add: transact_def Let_def)

lemma primary_frame:
  assumes "primary s = Inr (n, s1)"
  shows "inst s1 = inst s \<and> fund s1 = fund s \<and> unit s1 = unit s \<and> orders s1 = orders s
       \<and> kwargs s1 = kwargs s \<and> mode s1 = mode s
       \<and> ThresholdControlRoutine s1 = ThresholdControlRoutine s"
  using assms by (auto simp add: primary_def split: if_splits sum.splits)


lemma snapshot_frame:
  "inst (snapshot s) = inst s \<and> fund (snapshot s) = fund s \<and> unit (snapshot s) = unit s
   \<and> orders (snapshot s) = orders s \<and> kwargs (snapshot s) = kwargs s \<and> mode (snapshot s) = mode s
   \<and> ChasingRoutine (snapshot s) = ChasingRoutine s
   \<and> TurningPointRoutine (snapshot s) = TurningPointRoutine s
   \<and> ThresholdControlRoutine (snapshot s) = ThresholdControlRoutine s"
  by (simp add: snapshot_def)

lemma update_unfold:
  assumes "primary (snapshot s) = Inr (n, s1)"
      and "ThresholdControl_update (inst s1) (fund s1) n (ThresholdControlRoutine s1)
             = Inr (n2, lg, tc)"
  shows "PrototypeStrategyI_update s = settle n n2 (s1\<lparr>ThresholdControlRoutine := tc\<rparr>)"
  using assms by (simp add: PrototypeStrategyI_update_def)

text \<open>The two scenarios, step by step.\<close>

lemma chase_pre_primary: "primary (snapshot chase_pre) = Inr (50, chase_mid)"
  by (simp add: chase_mid_def chase_pre_def strategy_eval)

lemma chase_pre_control:
  "ThresholdControl_update (inst chase_mid) (fund chase_mid) 50 (ThresholdControlRoutine chase_mid)
     = Inr (- 30, Some WinningControl, chase_tc)"
  by (simp add: chase_tc_def chase_mid_def chase_pre_def strategy_eval)

lemma chase_pre_price: "price (inst chase_pre) \<noteq> 0"
  by (simp add: chase_pre_def strategy_eval)

lemma chase_pre_kwargs:
  "ThresholdControl_kwargs inst0 1000 10 (kwargs chase_pre)
     = Inr (ThresholdControlRoutine strategy0)"
  by (simp add: chase_pre_def strategy_eval)

lemma turning_pre_primary: "primary (snapshot turning_pre) = Inr (- 10, turning_mid)"
  by (simp add: turning_mid_def turning_pre_def strategy_eval)

lemma turning_pre_control:
  "ThresholdControl_update (inst turning_mid) (fund turning_mid) (- 10)
      (ThresholdControlRoutine turning_mid)
     = Inr (0, None, turning_tc)"
  by (simp add: turning_tc_def turning_mid_def turning_pre_def strategy_eval)

lemma turning_pre_price: "price (inst turning_pre) \<noteq> 0"
  by (simp add: turning_pre_def strategy_eval)

lemma turning_pre_kwargs:
  "ThresholdControl_kwargs inst0 1000 10 (kwargs turning_pre)
     = Inr (ThresholdControlRoutine strategy0)"
  by (simp add: turning_pre_def strategy_eval)

text \<open>
  C2. On a tick of \<^verbatim>\<open>update\<close>, let the primary subroutine (Chasing in mode chase,
  TurningPoint otherwise) propose \<open>n\<close> and let \<^verbatim>\<open>ThresholdControl.update(fund, n)\<close>
  return \<open>n2\<close>, at a price by which one can divide and with keyword arguments from which
  the controller can be built. If \<open>n2 = 0\<close> and \<open>n \<noteq> 0\<close>, the update is
  \<^verbatim>\<open>transact(n, mode)\<close>: one order, of \<open>n\<close>, tagged with the mode. If \<open>n2 \<noteq> 0\<close>, the
  update is \<^verbatim>\<open>transact(n2, "thresholdcontrol")\<close> followed by the replacement of the
  controller by a new one, whose baseline is the fund after the trade plus the unit
  after the trade times the price, and whose histories hold just these values.
\<close>

theorem update_dispatch:
  assumes prim: "primary (snapshot s) = Inr (n, s1)"
      and tcu: "ThresholdControl_update (inst s1) (fund s1) n (ThresholdControlRoutine s1)
                  = Inr (n2, lg, tc)"
      and pr: "price (inst s) \<noteq> 0"
      and kw: "ThresholdControl_kwargs i0 f0 u0 (kwargs s) = Inr tc0"
  shows "(n2 = 0 \<and> n \<noteq> 0 \<longrightarrow>
            (\<exists>s'. PrototypeStrategyI_update s = Inr s'
                \<and> transact n (mode s) (s1\<lparr>ThresholdControlRoutine := tc\<rparr>) = Inr s'
                \<and> orders s' = orders s @ [(ts (inst s), price (inst s), n, mode s)]
                \<and> ThresholdControlRoutine s' = tc))
       \<and> (n2 \<noteq> 0 \<longrightarrow>
            (\<exists>s2 tc'. transact n2 ''thresholdcontrol'' (s1\<lparr>ThresholdControlRoutine := tc\<rparr>) = Inr s2
                \<and> orders s2 = orders s @ [(ts (inst s), price (inst s), n2, ''thresholdcontrol'')]
                \<and> ThresholdControl_kwargs (inst s) (fund s2) (unit s2) (kwargs s) = Inr tc'
                \<and> PrototypeStrategyI_update s = Inr (s2\<lparr>ThresholdControlRoutine := tc'\<rparr>)
                \<and> tc_total0 tc' = fund s2 + unit s2 * price (inst s)
                \<and> tc_funds tc' = [fund s2] \<and> tc_units tc' = [unit s2]
                \<and> tc_prices tc' = [price (inst s)] \<and> tc_times tc' = [ts (inst s)]))"
proof -
  let ?s = "s1\<lparr>ThresholdControlRoutine := tc\<rparr>"
  from primary_frame [OF prim] snapshot_frame [of s]
  have fr: "inst ?s = inst s" "orders ?s = orders s" "kwargs ?s = kwargs s" "mode ?s = mode s"
    "ThresholdControlRoutine ?s = tc"
    by simp_all
  have upd: "PrototypeStrategyI_update s = settle n n2 ?s"
    by (rule update_unfold [OF prim tcu])
  have pr': "price (inst ?s) \<noteq> 0" using pr fr by simp
  have first: "\<exists>s'. PrototypeStrategyI_update s = Inr s'
                \<and> transact n (mode s) ?s = Inr s'
                \<and> orders s' = orders s @ [(ts (inst s), price (inst s), n, mode s)]
                \<and> ThresholdControlRoutine s' = tc" if "n2 = 0" "n \<noteq> 0"
  proof -
    from transact_returns [OF pr', of n "mode s"] obtain s' where
      t: "transact n (mode s) ?s = Inr s'"
      and o: "orders s' = orders ?s @ [(ts (inst ?s), price (inst ?s), n, mode s)]"
      and c: "ThresholdControlRoutine s' = ThresholdControlRoutine ?s"
      by blast
    have "PrototypeStrategyI_update s = Inr s'"
      using upd that t fr by (simp add: settle_def)
    with t o c fr show ?thesis by simp
  qed
  have second: "\<exists>s2 tc'. transact n2 ''thresholdcontrol'' ?s = Inr s2
                \<and> orders s2 = orders s @ [(ts (inst s), price (inst s), n2, ''thresholdcontrol'')]
                \<and> ThresholdControl_kwargs (inst s) (fund s2) (unit s2) (kwargs s) = Inr tc'
                \<and> PrototypeStrategyI_update s = Inr (s2\<lparr>ThresholdControlRoutine := tc'\<rparr>)
                \<and> tc_total0 tc' = fund s2 + unit s2 * price (inst s)
                \<and> tc_funds tc' = [fund s2] \<and> tc_units tc' = [unit s2]
                \<and> tc_prices tc' = [price (inst s)] \<and> tc_times tc' = [ts (inst s)]" if "n2 \<noteq> 0"
  proof -
    from transact_returns [OF pr', of n2 "''thresholdcontrol''"] obtain s2 where
      t: "transact n2 ''thresholdcontrol'' ?s = Inr s2"
      and o: "orders s2 = orders ?s @ [(ts (inst ?s), price (inst ?s), n2, ''thresholdcontrol'')]"
      and i: "inst s2 = inst ?s" and k: "kwargs s2 = kwargs ?s"
      by blast
    from tc_kwargs_fresh [OF kw, of "inst s" "fund s2" "unit s2"] obtain tc' where
      c: "ThresholdControl_kwargs (inst s) (fund s2) (unit s2) (kwargs s) = Inr tc'"
      and f: "tc_total0 tc' = fund s2 + unit s2 * price (inst s)"
        "tc_funds tc' = [fund s2]" "tc_units tc' = [unit s2]"
        "tc_prices tc' = [price (inst s)]" "tc_times tc' = [ts (inst s)]"
      by blast
    have "PrototypeStrategyI_update s = Inr (s2\<lparr>ThresholdControlRoutine := tc'\<rparr>)"
      using upd that t c i k fr by (simp add: settle_def)
    with t o c f fr show ?thesis by simp
  qed
  from first second show ?thesis by blast
qed

theorem update_dispatch_witness:
  "(\<exists>s'. primary (snapshot turning_pre) = Inr (- 10, turning_mid)
        \<and> PrototypeStrategyI_update turning_pre = Inr s'
        \<and> orders s' = [(3, 101, - 10, ''turning'')]
        \<and> ThresholdControlRoutine s' = turning_tc)
   \<and> (\<exists>s'. primary (snapshot chase_pre) = Inr (50, chase_mid)
        \<and> PrototypeStrategyI_update chase_pre = Inr s'
        \<and> orders s' = [(3, 106, - 30, ''thresholdcontrol'')]
        \<and> fund s' = 4180 \<and> unit s' = - 20
        \<and> tc_total0 (ThresholdControlRoutine s') = 4180 + (- 20) * 106
        \<and> tc_funds (ThresholdControlRoutine s') = [4180]
        \<and> tc_units (ThresholdControlRoutine s') = [- 20])"
proof -
  note a = update_dispatch [OF turning_pre_primary turning_pre_control turning_pre_price
      turning_pre_kwargs]
  note b = update_dispatch [OF chase_pre_primary chase_pre_control chase_pre_price
      chase_pre_kwargs]
  have "\<exists>s'. primary (snapshot turning_pre) = Inr (- 10, turning_mid)
        \<and> PrototypeStrategyI_update turning_pre = Inr s'
        \<and> orders s' = [(3, 101, - 10, ''turning'')]
        \<and> ThresholdControlRoutine s' = turning_tc"
    using a turning_pre_primary
    by (simp add: turning_tc_def turning_mid_def turning_pre_def strategy_eval)
  moreover have "\<exists>s'. primary (snapshot chase_pre) = Inr (50, chase_mid)
        \<and> PrototypeStrategyI_update chase_pre = Inr s'
        \<and> orders s' = [(3, 106, - 30, ''thresholdcontrol'')]
        \<and> fund s' = 4180 \<and> unit s' = - 20
        \<and> tc_total0 (ThresholdControlRoutine s') = 4180 + (- 20) * 106
        \<and> tc_funds (ThresholdControlRoutine s') = [4180]
        \<and> tc_units (ThresholdControlRoutine s') = [- 20]"
    using b chase_pre_primary
    by (simp add: chase_tc_def chase_mid_def chase_pre_def strategy_eval)
  ultimately show ?thesis by blast
qed



end
